theory Spec2Isabelle
  imports Main
begin

section \<open>JavaScript values used by the SSO service\<close>

text \<open>
  The service \<^verbatim>\<open>src/services/sso-auth.ts\<close> keeps four string-keyed entries in an
  extension store, reads the wall clock with \<^verbatim>\<open>Date.now()\<close> and talks to one HTTP
  endpoint with \<^verbatim>\<open>fetch\<close>.  Its functions are embedded below one by one, under their
  own names.  Every \<^verbatim>\<open>async\<close> function becomes a function from the state of the world
  to a result and the next state; a rejected promise is the left summand of the result.

  Numbers are modelled by \<^typ>\<open>int\<close>: \<^verbatim>\<open>Date.now()\<close> is a whole number of milliseconds
  and \<^verbatim>\<open>expires_in\<close> a whole number of seconds, in the range where the arithmetic of
  JavaScript numbers is exact and \<^verbatim>\<open>toString\<close> prints plain decimal digits.
  Fractional, infinite and not-a-number values of \<^verbatim>\<open>expires_in\<close> are outside the model.
  Strings are lists of characters below 256.  Calls of \<^verbatim>\<open>console.log\<close> and
  \<^verbatim>\<open>console.error\<close> have no effect on the store or the network and are left out.
\<close>

datatype js_error = JsError (error_name: string) (message: string)

definition new_Error :: "string \<Rightarrow> js_error" where
  "new_Error m = JsError ''Error'' m"

text \<open>Truthiness of a value that is a string or \<^verbatim>\<open>undefined\<close>: only a non-empty string is truthy.\<close>

definition truthy :: "string option \<Rightarrow> bool" where
  "truthy v = (case v of None \<Rightarrow> False | Some s \<Rightarrow> s \<noteq> [])"

text \<open>The operator \<^verbatim>\<open>a || d\<close> on an optional string and a string default.\<close>

definition or_default :: "string option \<Rightarrow> string \<Rightarrow> string" where
  "or_default v d = (case v of None \<Rightarrow> d | Some s \<Rightarrow> if s = [] then d else s)"

subsection \<open>Number.prototype.toString on integers\<close>

definition digit_char :: "nat \<Rightarrow> char" where
  "digit_char d = char_of (48 + d)"

function nat_to_string :: "nat \<Rightarrow> string" where
  "nat_to_string n =
     (if n < 10 then [digit_char n] else nat_to_string (n div 10) @ [digit_char (n mod 10)])"
  by pat_completeness auto
termination
  by (relation "measure (\<lambda>n. n)") auto

declare nat_to_string.simps [simp del]

definition toString :: "int \<Rightarrow> string" where
  "toString i = (if i < 0 then CHR ''-'' # nat_to_string (nat (- i)) else nat_to_string (nat i))"

subsection \<open>parseInt with no radix argument\<close>

text \<open>
  The steps of the language standard: leading white space is skipped, one sign is read,
  a prefix \<^verbatim>\<open>0x\<close> or \<^verbatim>\<open>0X\<close> selects radix 16, the longest run of digits of the radix is
  converted, and an empty run gives \<^verbatim>\<open>NaN\<close>, which is \<^const>\<open>None\<close> here.
\<close>

definition is_white_space :: "char \<Rightarrow> bool" where
  "is_white_space c = (of_char c \<in> {9::nat, 10, 11, 12, 13, 32, 160})"

definition digit_value :: "char \<Rightarrow> nat option" where
  "digit_value c =
     (let k = (of_char c :: nat) in
      if 48 \<le> k \<and> k \<le> 57 then Some (k - 48)
      else if 97 \<le> k \<and> k \<le> 122 then Some (k - 87)
      else if 65 \<le> k \<and> k \<le> 90 then Some (k - 55)
      else None)"

definition is_radix_digit :: "nat \<Rightarrow> char \<Rightarrow> bool" where
  "is_radix_digit R c = (case digit_value c of None \<Rightarrow> False | Some v \<Rightarrow> v < R)"

definition radix_value :: "nat \<Rightarrow> string \<Rightarrow> nat" where
  "radix_value R Z = foldl (\<lambda>acc c. acc * R + the (digit_value c)) 0 Z"

definition parseInt :: "string \<Rightarrow> int option" where
  "parseInt inputString =
     (let S = dropWhile is_white_space inputString;
          sign = (if S \<noteq> [] \<and> hd S = CHR ''-'' then - 1 else 1 :: int);
          S1 = (if S \<noteq> [] \<and> (hd S = CHR ''+'' \<or> hd S = CHR ''-'') then tl S else S);
          hex = (length S1 \<ge> 2 \<and> (take 2 S1 = ''0x'' \<or> take 2 S1 = ''0X''));
          R = (if hex then 16 else 10 :: nat);
          S2 = (if hex then drop 2 S1 else S1);
          Z = takeWhile (is_radix_digit R) S2
      in if Z = [] then None else Some (sign * int (radix_value R Z)))"

text \<open>The comparison \<^verbatim>\<open>a >= b\<close> of a number with a number that may be \<^verbatim>\<open>NaN\<close>.\<close>

definition js_ge :: "int \<Rightarrow> int option \<Rightarrow> bool" where
  "js_ge a b = (case b of None \<Rightarrow> False | Some e \<Rightarrow> a \<ge> e)"

subsection \<open>JSON.stringify on the login payload\<close>

definition hex_char :: "nat \<Rightarrow> char" where
  "hex_char d = (if d < 10 then char_of (48 + d) else char_of (87 + d))"

definition json_escape :: "char \<Rightarrow> string" where
  "json_escape c =
     (let k = (of_char c :: nat) in
      if k = 34 then [CHR 0x5C, CHR 0x22]
      else if k = 92 then [CHR 0x5C, CHR 0x5C]
      else if k = 8 then [CHR 0x5C, CHR ''b'']
      else if k = 9 then [CHR 0x5C, CHR ''t'']
      else if k = 10 then [CHR 0x5C, CHR ''n'']
      else if k = 12 then [CHR 0x5C, CHR ''f'']
      else if k = 13 then [CHR 0x5C, CHR ''r'']
      else if k < 32 then [CHR 0x5C, CHR ''u'', CHR ''0'', CHR ''0'', hex_char (k div 16), hex_char (k mod 16)]
      else [c])"

definition json_quote :: "string \<Rightarrow> string" where
  "json_quote s = [CHR 0x22] @ concat (map json_escape s) @ [CHR 0x22]"

section \<open>Data model\<close>

record SSOCredentials =
  userid :: string
  password :: string
  otp :: "string option"
  otp_type :: "string option"

record SSOTokenResponse =
  access_token :: string
  scope :: string
  id_token :: string
  token_type :: string
  expires_in :: int
  nonce :: string

record GeminiAPIConfig =
  ssoUrl :: string
  geminiApiUrl :: string
  projectId :: string
  location :: string
  model :: string

text \<open>The object literal \<^verbatim>\<open>requestBody\<close> of \<^verbatim>\<open>performSSOLogin\<close>, all four fields strings.\<close>

record requestBody =
  body_userid :: string
  body_password :: string
  body_otp :: string
  body_otp_type :: string

definition JSON_stringify_requestBody :: "requestBody \<Rightarrow> string" where
  "JSON_stringify_requestBody b =
     ''{'' @ json_quote ''userid'' @ '':'' @ json_quote (body_userid b) @ '','' @
     json_quote ''password'' @ '':'' @ json_quote (body_password b) @ '','' @
     json_quote ''otp'' @ '':'' @ json_quote (body_otp b) @ '','' @
     json_quote ''otp_type'' @ '':'' @ json_quote (body_otp_type b) @ ''}''"

text \<open>The argument of \<^verbatim>\<open>fetch\<close>: the URL and the fields of the options object.\<close>

record request =
  req_url :: string
  req_method :: string
  req_headers :: "(string \<times> string) list"
  req_body :: string
  req_mode :: string
  req_credentials :: string
  req_redirect :: string

text \<open>
  What the service reads from a \<^verbatim>\<open>Response\<close>: the status line, and the outcomes of
  \<^verbatim>\<open>response.text()\<close> and \<^verbatim>\<open>response.json()\<close>, each of which may reject.
\<close>

record response =
  resp_status :: int
  resp_statusText :: string
  resp_text :: "js_error + string"
  resp_json :: "js_error + SSOTokenResponse"

text \<open>\<^verbatim>\<open>response.ok\<close> of the Fetch standard: the status is in the range 200 to 299.\<close>

definition ok :: "response \<Rightarrow> bool" where
  "ok r = (200 \<le> resp_status r \<and> resp_status r \<le> 299)"

datatype fetch_outcome = Rejected js_error | Resolved response

text \<open>
  The platform outside the module: the JSON codec on the two stored records (the key
  order of \<^verbatim>\<open>JSON.stringify\<close> depends on how the caller built the object, and
  \<^verbatim>\<open>JSON.parse\<close> throws on malformed text and yields \<^verbatim>\<open>null\<close> on the text
  \<^verbatim>\<open>null\<close>) and the remote endpoint behind \<^verbatim>\<open>fetch\<close>.
\<close>

record platform =
  JSON_stringify_credentials :: "SSOCredentials \<Rightarrow> string"
  JSON_parse_credentials :: "string \<Rightarrow> js_error + SSOCredentials option"
  JSON_stringify_config :: "GeminiAPIConfig \<Rightarrow> string"
  JSON_parse_config :: "string \<Rightarrow> js_error + GeminiAPIConfig option"
  fetch :: "request \<Rightarrow> fetch_outcome"

text \<open>
  The world: the store behind \<^verbatim>\<open>new Storage()\<close>, and the trace of every storage and
  network operation performed so far, in order.
\<close>

datatype event =
  StorageGet string
  | StorageSet string string
  | StorageRemove string
  | NetworkFetch request

record world =
  store :: "string \<rightharpoonup> string"
  trace :: "event list"

fun fetches :: "event list \<Rightarrow> request list" where
  "fetches [] = []"
| "fetches (NetworkFetch r # es) = r # fetches es"
| "fetches (e # es) = fetches es"

definition storage_get :: "string \<Rightarrow> world \<Rightarrow> string option \<times> world" where
  "storage_get k w = (store w k, w\<lparr>trace := trace w @ [StorageGet k]\<rparr>)"

definition storage_set :: "string \<Rightarrow> string \<Rightarrow> world \<Rightarrow> world" where
  "storage_set k v w = w\<lparr>store := (store w)(k \<mapsto> v), trace := trace w @ [StorageSet k v]\<rparr>"

definition storage_remove :: "string \<Rightarrow> world \<Rightarrow> world" where
  "storage_remove k w = w\<lparr>store := (store w)(k := None), trace := trace w @ [StorageRemove k]\<rparr>"

section \<open>The service\<close>

definition SSO_TOKEN_KEY :: string where
  "SSO_TOKEN_KEY = ''sso_access_token''"

definition SSO_TOKEN_EXPIRY_KEY :: string where
  "SSO_TOKEN_EXPIRY_KEY = ''sso_token_expiry''"

definition SSO_CREDENTIALS_KEY :: string where
  "SSO_CREDENTIALS_KEY = ''sso_credentials''"

definition GEMINI_CONFIG_KEY :: string where
  "GEMINI_CONFIG_KEY = ''gemini_api_config''"

definition getSSOCredentials :: "platform \<Rightarrow> world \<Rightarrow> (js_error + SSOCredentials option) \<times> world" where
  "getSSOCredentials P w =
     (let (credentials, w1) = storage_get SSO_CREDENTIALS_KEY w
      in (case credentials of
            None \<Rightarrow> Inr None
          | Some t \<Rightarrow> if t = [] then Inr None else JSON_parse_credentials P t, w1))"

definition setSSOCredentials :: "platform \<Rightarrow> SSOCredentials \<Rightarrow> world \<Rightarrow> world" where
  "setSSOCredentials P credentials w =
     storage_set SSO_CREDENTIALS_KEY (JSON_stringify_credentials P credentials) w"

definition getGeminiConfig :: "platform \<Rightarrow> world \<Rightarrow> (js_error + GeminiAPIConfig option) \<times> world" where
  "getGeminiConfig P w =
     (let (config, w1) = storage_get GEMINI_CONFIG_KEY w
      in (case config of
            None \<Rightarrow> Inr None
          | Some t \<Rightarrow> if t = [] then Inr None else JSON_parse_config P t, w1))"

definition setGeminiConfig :: "platform \<Rightarrow> GeminiAPIConfig \<Rightarrow> world \<Rightarrow> world" where
  "setGeminiConfig P config w =
     storage_set GEMINI_CONFIG_KEY (JSON_stringify_config P config) w"

definition clearTokens :: "world \<Rightarrow> world" where
  "clearTokens w = storage_remove SSO_TOKEN_EXPIRY_KEY (storage_remove SSO_TOKEN_KEY w)"

text \<open>\<^verbatim>\<open>getAccessToken\<close>; the argument \<open>now\<close> is the value of \<^verbatim>\<open>Date.now()\<close> at the call.\<close>

definition getAccessToken :: "int \<Rightarrow> world \<Rightarrow> string option \<times> world" where
  "getAccessToken now w =
     (let (token, w1) = storage_get SSO_TOKEN_KEY w;
          (expiry, w2) = storage_get SSO_TOKEN_EXPIRY_KEY w1
      in if \<not> truthy token \<or> \<not> truthy expiry then (None, w2)
         else if js_ge now (parseInt (the expiry)) then (None, clearTokens w2)
         else (token, w2))"

definition setAccessToken :: "int \<Rightarrow> SSOTokenResponse \<Rightarrow> world \<Rightarrow> world" where
  "setAccessToken now tokenResponse w =
     (let expiryTime = now + (expires_in tokenResponse * 1000) - (5 * 60 * 1000)
      in storage_set SSO_TOKEN_EXPIRY_KEY (toString expiryTime)
           (storage_set SSO_TOKEN_KEY (access_token tokenResponse) w))"

definition login_body :: "SSOCredentials \<Rightarrow> requestBody" where
  "login_body credentials =
     \<lparr>body_userid = userid credentials,
      body_password = password credentials,
      body_otp = or_default (otp credentials) ''NONE'',
      body_otp_type = or_default (otp_type credentials) ''PUSH''\<rparr>"

definition login_request :: "string \<Rightarrow> SSOCredentials \<Rightarrow> request" where
  "login_request url credentials =
     \<lparr>req_url = url,
      req_method = ''POST'',
      req_headers = [(''Content-Type'', ''application/json'')],
      req_body = JSON_stringify_requestBody (login_body credentials),
      req_mode = ''cors'',
      req_credentials = ''omit'',
      req_redirect = ''follow''\<rparr>"

definition http_failure_message :: "response \<Rightarrow> string \<Rightarrow> string" where
  "http_failure_message r errorDetails =
     ''SSO login failed: '' @ toString (resp_status r) @ '' '' @ resp_statusText r @
     ''. Details: '' @ errorDetails"

definition network_error_message :: "string \<Rightarrow> string" where
  "network_error_message url =
     ''Network error: Cannot reach SSO endpoint at '' @ url @ ''. This might be due to:'' @
     concat (map (\<lambda>l. CHR 0x0A # ''        '' @ l)
       [''1. CORS policy blocking the request'',
        ''2. Network connectivity issues'',
        ''3. SSL certificate problems'',
        ''4. Firewall or VPN restrictions'',
        '''',
        ''Please check your network connection and ensure the endpoint is accessible.''])"

text \<open>
  The body of the \<^verbatim>\<open>try\<close> block of \<^verbatim>\<open>performSSOLogin\<close>; \<open>now\<close> is the clock at the
  moment the token is stored.
\<close>

definition login_exchange ::
  "platform \<Rightarrow> int \<Rightarrow> string \<Rightarrow> SSOCredentials \<Rightarrow> world \<Rightarrow> (js_error + SSOTokenResponse) \<times> world" where
  "login_exchange P now url credentials w =
     (let req = login_request url credentials;
          w1 = w\<lparr>trace := trace w @ [NetworkFetch req]\<rparr>
      in case fetch P req of
           Rejected e \<Rightarrow> (Inl e, w1)
         | Resolved r \<Rightarrow>
             if \<not> ok r then
               (let errorDetails = (case resp_text r of Inl e \<Rightarrow> [] | Inr t \<Rightarrow> t)
                in (Inl (new_Error (http_failure_message r errorDetails)), w1))
             else (case resp_json r of
                     Inl e \<Rightarrow> (Inl e, w1)
                   | Inr tokenResponse \<Rightarrow> (Inr tokenResponse, setAccessToken now tokenResponse w1)))"

text \<open>\<^verbatim>\<open>performSSOLogin\<close>: the \<^verbatim>\<open>try\<close> block and its \<^verbatim>\<open>catch\<close> clause.\<close>

definition performSSOLogin ::
  "platform \<Rightarrow> int \<Rightarrow> string \<Rightarrow> SSOCredentials \<Rightarrow> world \<Rightarrow> (js_error + SSOTokenResponse) \<times> world" where
  "performSSOLogin P now url credentials w =
     (case login_exchange P now url credentials w of
        (Inl error, w1) \<Rightarrow>
          if message error = ''Failed to fetch''
          then (Inl (new_Error (network_error_message url)), w1)
          else (Inl error, w1)
      | (Inr tokenResponse, w1) \<Rightarrow> (Inr tokenResponse, w1))"

text \<open>
  \<^verbatim>\<open>getValidAccessToken\<close>; \<open>now\<close> is the clock at the cache read and \<open>later\<close> the clock
  when a fresh token is stored.
\<close>

definition getValidAccessToken :: "platform \<Rightarrow> int \<Rightarrow> int \<Rightarrow> world \<Rightarrow> (js_error + string) \<times> world" where
  "getValidAccessToken P now later w =
     (let (token, w1) = getAccessToken now w
      in if truthy token then (Inr (the token), w1)
         else (case getSSOCredentials P w1 of
                 (Inl e, w2) \<Rightarrow> (Inl e, w2)
               | (Inr credentials, w2) \<Rightarrow>
                   (case getGeminiConfig P w2 of
                      (Inl e, w3) \<Rightarrow> (Inl e, w3)
                    | (Inr config, w3) \<Rightarrow>
                        if credentials = None \<or> config = None
                        then (Inl (new_Error
                               ''No stored credentials or config found. Please configure SSO settings.''), w3)
                        else (case performSSOLogin P later (ssoUrl (the config)) (the credentials) w3 of
                                (Inl e, w4) \<Rightarrow> (Inl e, w4)
                              | (Inr tokenResponse, w4) \<Rightarrow> (Inr (access_token tokenResponse), w4)))))"



text \<open>The two reads every call of \<^verbatim>\<open>getAccessToken\<close> performs.\<close>

definition cache_reads :: "event list" where
  "cache_reads = [StorageGet SSO_TOKEN_KEY, StorageGet SSO_TOKEN_EXPIRY_KEY]"


section \<open>The payload as the specification words it\<close>

text \<open>
  The specification writes the payload with the nullish operator,
  \<^verbatim>\<open>{userid, password, otp: otp ?? "NONE", otp_type: otp_type ?? "PUSH"}\<close>:
  the default stands in only for \<^verbatim>\<open>null\<close> and \<^verbatim>\<open>undefined\<close>.  The two definitions
  below follow those words, to be compared with \<^const>\<open>login_body\<close>.
\<close>

definition nullish_default :: "string option \<Rightarrow> string \<Rightarrow> string" where
  "nullish_default v d = (case v of None \<Rightarrow> d | Some s \<Rightarrow> s)"

definition spec_login_body :: "SSOCredentials \<Rightarrow> requestBody" where
  "spec_login_body credentials =
     \<lparr>body_userid = userid credentials,
      body_password = password credentials,
      body_otp = nullish_default (otp credentials) ''NONE'',
      body_otp_type = nullish_default (otp_type credentials) ''PUSH''\<rparr>"

section \<open>Concrete worlds, records and endpoints\<close>

definition empty_world :: world where
  "empty_world = \<lparr>store = Map.empty, trace = []\<rparr>"




definition sample_credentials :: SSOCredentials where
  "sample_credentials =
     \<lparr>userid = ''alice'', password = ''secret'', otp = None, otp_type = None\<rparr>"

definition blank_otp_credentials :: SSOCredentials where
  "blank_otp_credentials = sample_credentials\<lparr>otp := Some [], otp_type := Some []\<rparr>"

definition sample_config :: GeminiAPIConfig where
  "sample_config =
     \<lparr>ssoUrl = ''https://sso.example/login'', geminiApiUrl = ''https://api.example/v1'',
      projectId = ''p1'', location = ''us'', model = ''gemini''\<rparr>"

text \<open>A codec that knows the text of the two sample records and rejects every other text.\<close>

definition sample_credentials_text :: string where
  \<open>sample_credentials_text = ''{"userid":"alice","password":"secret"}''\<close>

definition sample_config_text :: string where
  \<open>sample_config_text =
     ''{"ssoUrl":"https://sso.example/login","geminiApiUrl":"https://api.example/v1","projectId":"p1","location":"us","model":"gemini"}''\<close>

definition sample_parse_credentials :: "string \<Rightarrow> js_error + SSOCredentials option" where
  "sample_parse_credentials t =
     (if t = sample_credentials_text then Inr (Some sample_credentials)
      else if t = ''null'' then Inr None
      else Inl (JsError ''SyntaxError'' ''Unexpected token''))"

definition sample_parse_config :: "string \<Rightarrow> js_error + GeminiAPIConfig option" where
  "sample_parse_config t =
     (if t = sample_config_text then Inr (Some sample_config)
      else if t = ''null'' then Inr None
      else Inl (JsError ''SyntaxError'' ''Unexpected token''))"

definition sample_platform :: "(request \<Rightarrow> fetch_outcome) \<Rightarrow> platform" where
  "sample_platform endpoint =
     \<lparr>JSON_stringify_credentials = (\<lambda>c. if c = sample_credentials then sample_credentials_text else ''{}''),
      JSON_parse_credentials = sample_parse_credentials,
      JSON_stringify_config = (\<lambda>g. if g = sample_config then sample_config_text else ''{}''),
      JSON_parse_config = sample_parse_config,
      fetch = endpoint\<rparr>"

definition endpoint_unauthorized :: "request \<Rightarrow> fetch_outcome" where
  "endpoint_unauthorized req =
     Resolved \<lparr>resp_status = 401, resp_statusText = ''Unauthorized'',
               resp_text = Inr ''invalid credentials'',
               resp_json = Inl (JsError ''SyntaxError'' ''Unexpected token'')\<rparr>"


definition endpoint_unreachable :: "request \<Rightarrow> fetch_outcome" where
  "endpoint_unreachable req = Rejected (JsError ''TypeError'' ''Failed to fetch'')"



definition cached_world :: "string \<Rightarrow> string \<Rightarrow> world" where
  "cached_world t x =
     \<lparr>store = [SSO_TOKEN_KEY \<mapsto> t, SSO_TOKEN_EXPIRY_KEY \<mapsto> x], trace = []\<rparr>"

definition expiry_only_world :: world where
  "expiry_only_world = \<lparr>store = [SSO_TOKEN_EXPIRY_KEY \<mapsto> ''1700000000000''], trace = []\<rparr>"


section \<open>Facts about numbers and strings\<close>

lemma digit_char_numerals:
  "digit_char 0 = CHR ''0''" "digit_char 1 = CHR ''1''" "digit_char 2 = CHR ''2''"
  "digit_char 3 = CHR ''3''" "digit_char 4 = CHR ''4''" "digit_char 5 = CHR ''5''"
  "digit_char 6 = CHR ''6''" "digit_char 7 = CHR ''7''" "digit_char 8 = CHR ''8''"
  "digit_char 9 = CHR ''9''" "digit_char (Suc 0) = CHR ''1''"
  by code_simp+

lemma nat_to_string_small: "n < 10 \<Longrightarrow> nat_to_string n = [digit_char n]"
  by (subst nat_to_string.simps) simp

lemma nat_to_string_large:
  "\<not> n < 10 \<Longrightarrow> nat_to_string n = nat_to_string (n div 10) @ [digit_char (n mod 10)]"
  by (subst nat_to_string.simps) simp

lemmas toString_eval =
  toString_def nat_to_string_small nat_to_string_large digit_char_numerals

lemmas parseInt_eval =
  parseInt_def is_white_space_def is_radix_digit_def digit_value_def radix_value_def

















section \<open>Facts about the store and the token cache\<close>

lemma keys_distinct:
  "SSO_TOKEN_KEY \<noteq> SSO_TOKEN_EXPIRY_KEY" "SSO_TOKEN_EXPIRY_KEY \<noteq> SSO_TOKEN_KEY"
  "SSO_TOKEN_KEY \<noteq> SSO_CREDENTIALS_KEY" "SSO_CREDENTIALS_KEY \<noteq> SSO_TOKEN_KEY"
  "SSO_TOKEN_KEY \<noteq> GEMINI_CONFIG_KEY" "GEMINI_CONFIG_KEY \<noteq> SSO_TOKEN_KEY"
  "SSO_TOKEN_EXPIRY_KEY \<noteq> SSO_CREDENTIALS_KEY" "SSO_CREDENTIALS_KEY \<noteq> SSO_TOKEN_EXPIRY_KEY"
  "SSO_TOKEN_EXPIRY_KEY \<noteq> GEMINI_CONFIG_KEY" "GEMINI_CONFIG_KEY \<noteq> SSO_TOKEN_EXPIRY_KEY"
  "SSO_CREDENTIALS_KEY \<noteq> GEMINI_CONFIG_KEY" "GEMINI_CONFIG_KEY \<noteq> SSO_CREDENTIALS_KEY"
  by (simp_all add: SSO_TOKEN_KEY_def SSO_TOKEN_EXPIRY_KEY_def SSO_CREDENTIALS_KEY_def
      GEMINI_CONFIG_KEY_def)

lemmas key_defs =
  SSO_TOKEN_KEY_def SSO_TOKEN_EXPIRY_KEY_def SSO_CREDENTIALS_KEY_def GEMINI_CONFIG_KEY_def

lemma fetches_append: "fetches (xs @ ys) = fetches xs @ fetches ys"
  by (induction xs rule: fetches.induct) auto

lemma getAccessToken_missing:
  assumes "\<not> truthy (store w SSO_TOKEN_KEY) \<or> \<not> truthy (store w SSO_TOKEN_EXPIRY_KEY)"
  shows "getAccessToken now w = (None, w\<lparr>trace := trace w @ cache_reads\<rparr>)"
  using assms by (auto simp: getAccessToken_def storage_get_def cache_reads_def)


lemma getAccessToken_live:
  assumes "store w SSO_TOKEN_KEY = Some t" and "t \<noteq> []"
    and "store w SSO_TOKEN_EXPIRY_KEY = Some x" and "x \<noteq> []"
    and "\<not> js_ge now (parseInt x)"
  shows "getAccessToken now w = (Some t, w\<lparr>trace := trace w @ cache_reads\<rparr>)"
  using assms by (simp add: getAccessToken_def storage_get_def cache_reads_def truthy_def)

lemma store_clearTokens:
  "store (clearTokens w) = (store w)(SSO_TOKEN_KEY := None, SSO_TOKEN_EXPIRY_KEY := None)"
  by (simp add: clearTokens_def storage_remove_def)



lemma trace_setAccessToken:
  "trace (setAccessToken T r w) =
     trace w @ [StorageSet SSO_TOKEN_KEY (access_token r),
                StorageSet SSO_TOKEN_EXPIRY_KEY (toString (T + expires_in r * 1000 - 300000))]"
  by (simp add: setAccessToken_def storage_set_def Let_def)



lemma getAccessToken_Some_nonempty:
  "fst (getAccessToken now w) = Some t \<Longrightarrow> t \<noteq> []"
  by (auto simp: getAccessToken_def storage_get_def truthy_def Let_def split: if_splits)

lemma getSSOCredentials_eq:
  "getSSOCredentials P w =
     (case store w SSO_CREDENTIALS_KEY of
        None \<Rightarrow> Inr None
      | Some t \<Rightarrow> if t = [] then Inr None else JSON_parse_credentials P t,
      w\<lparr>trace := trace w @ [StorageGet SSO_CREDENTIALS_KEY]\<rparr>)"
  by (simp add: getSSOCredentials_def storage_get_def)

lemma getGeminiConfig_eq:
  "getGeminiConfig P w =
     (case store w GEMINI_CONFIG_KEY of
        None \<Rightarrow> Inr None
      | Some t \<Rightarrow> if t = [] then Inr None else JSON_parse_config P t,
      w\<lparr>trace := trace w @ [StorageGet GEMINI_CONFIG_KEY]\<rparr>)"
  by (simp add: getGeminiConfig_def storage_get_def)



text \<open>
  What the setters wrote is what the getters read, whenever the platform's parser inverts
  its printer on the record: the stored records are then decodable.
\<close>

lemma getSSOCredentials_after_set:
  assumes "JSON_parse_credentials P (JSON_stringify_credentials P c) = Inr (Some c)"
    and "JSON_stringify_credentials P c \<noteq> []"
  shows "fst (getSSOCredentials P (setSSOCredentials P c w)) = Inr (Some c)"
  using assms by (simp add: getSSOCredentials_eq setSSOCredentials_def storage_set_def)

lemma getGeminiConfig_after_set:
  assumes "JSON_parse_config P (JSON_stringify_config P g) = Inr (Some g)"
    and "JSON_stringify_config P g \<noteq> []"
  shows "fst (getGeminiConfig P (setGeminiConfig P g w)) = Inr (Some g)"
  using assms by (simp add: getGeminiConfig_eq setGeminiConfig_def storage_set_def)

lemma login_exchange_http_failure:
  assumes "fetch P (login_request url c) = Resolved r" and "\<not> ok r"
  shows "login_exchange P now url c w =
          (Inl (new_Error (http_failure_message r (case resp_text r of Inl e \<Rightarrow> [] | Inr d \<Rightarrow> d))),
           w\<lparr>trace := trace w @ [NetworkFetch (login_request url c)]\<rparr>)"
  using assms by (simp add: login_exchange_def Let_def)



lemma fetches_login_exchange:
  "fetches (trace (snd (login_exchange P now url c w))) =
     fetches (trace w) @ [login_request url c]"
  by (simp add: login_exchange_def Let_def fetches_append trace_setAccessToken
      split: fetch_outcome.splits sum.splits)

lemma snd_performSSOLogin:
  "snd (performSSOLogin P now url c w) = snd (login_exchange P now url c w)"
  by (simp add: performSSOLogin_def split: prod.splits sum.splits)

lemma http_failure_message_not_fetch:
  "http_failure_message r d \<noteq> ''Failed to fetch''"
  by (simp add: http_failure_message_def)




section \<open>The token cache: expiry boundary\<close>




section \<open>The orchestrator: cache hit\<close>

text \<open>
  Claim C2: in every state in which the token cache holds a valid, unexpired token,
  \<^verbatim>\<open>getValidAccessToken\<close> returns that cached token string at once; it performs no
  network call and reads neither the credentials nor the configuration.  The state
  after the call is the state before it with exactly the two reads of the token cache
  added to the trace.
\<close>

theorem C2_cached_token_returned:
  assumes "store w SSO_TOKEN_KEY = Some t" and "t \<noteq> []"
    and "store w SSO_TOKEN_EXPIRY_KEY = Some x" and "x \<noteq> []"
    and "\<not> js_ge now (parseInt x)"
  shows "getValidAccessToken P now later w =
           (Inr t, w\<lparr>trace := trace w @
                      [StorageGet SSO_TOKEN_KEY, StorageGet SSO_TOKEN_EXPIRY_KEY]\<rparr>)"
  using assms
  by (simp add: getValidAccessToken_def getAccessToken_live cache_reads_def truthy_def)

theorem C2_cached_token_returned_witness:
  "getValidAccessToken (sample_platform endpoint_unreachable) 1700000000000 1700000000001
     (cached_world ''tok-1'' ''1700003300000'') =
   (Inr ''tok-1'',
    \<lparr>store = [SSO_TOKEN_KEY \<mapsto> ''tok-1'', SSO_TOKEN_EXPIRY_KEY \<mapsto> ''1700003300000''],
     trace = [StorageGet SSO_TOKEN_KEY, StorageGet SSO_TOKEN_EXPIRY_KEY]\<rparr>)"
  using C2_cached_token_returned [of "cached_world ''tok-1'' ''1700003300000''" "''tok-1''"
      "''1700003300000''" 1700000000000 "sample_platform endpoint_unreachable" 1700000000001]
  by (simp add: cached_world_def keys_distinct js_ge_def parseInt_eval)

section \<open>The orchestrator: missing configuration\<close>



section \<open>The login exchange: failures\<close>

text \<open>
  Claim C4: for every non-success HTTP response to the login exchange,
  \<^verbatim>\<open>performSSOLogin\<close> fails with an error whose message contains the status code, the
  status text and the response body text as far as it could be read (a failure to read
  the body is swallowed and gives empty detail), and the token cache, indeed the whole
  store, is left unchanged.
\<close>

theorem C4_http_failure:
  assumes "fetch P (login_request url c) = Resolved r" and "\<not> ok r"
  shows "performSSOLogin P now url c w =
           (Inl (new_Error (''SSO login failed: '' @ toString (resp_status r) @ '' '' @
                            resp_statusText r @ ''. Details: '' @
                            (case resp_text r of Inl e \<Rightarrow> [] | Inr d \<Rightarrow> d))),
            w\<lparr>trace := trace w @ [NetworkFetch (login_request url c)]\<rparr>) \<and>
         store (snd (performSSOLogin P now url c w)) = store w"
proof -
  have "performSSOLogin P now url c w =
          (Inl (new_Error (http_failure_message r (case resp_text r of Inl e \<Rightarrow> [] | Inr d \<Rightarrow> d))),
           w\<lparr>trace := trace w @ [NetworkFetch (login_request url c)]\<rparr>)"
    by (simp add: performSSOLogin_def login_exchange_http_failure [OF assms]
        new_Error_def http_failure_message_not_fetch)
  then show ?thesis by (simp add: http_failure_message_def)
qed

theorem C4_http_failure_witness:
  "\<not> ok \<lparr>resp_status = 401, resp_statusText = ''Unauthorized'',
          resp_text = Inr ''invalid credentials'',
          resp_json = Inl (JsError ''SyntaxError'' ''Unexpected token'')\<rparr> \<and>
   fst (performSSOLogin (sample_platform endpoint_unauthorized) 1700000000000
          ''https://sso.example/login'' sample_credentials (cached_world ''tok-0'' ''1700000000500'')) =
     Inl (new_Error ''SSO login failed: 401 Unauthorized. Details: invalid credentials'') \<and>
   store (snd (performSSOLogin (sample_platform endpoint_unauthorized) 1700000000000
          ''https://sso.example/login'' sample_credentials (cached_world ''tok-0'' ''1700000000500''))) =
     [SSO_TOKEN_KEY \<mapsto> ''tok-0'', SSO_TOKEN_EXPIRY_KEY \<mapsto> ''1700000000500'']"
proof -
  let ?r = "\<lparr>resp_status = 401, resp_statusText = ''Unauthorized'',
             resp_text = Inr ''invalid credentials'',
             resp_json = Inl (JsError ''SyntaxError'' ''Unexpected token'')\<rparr>"
  have a: "fetch (sample_platform endpoint_unauthorized)
             (login_request ''https://sso.example/login'' sample_credentials) = Resolved ?r"
    by (simp add: sample_platform_def endpoint_unauthorized_def)
  have b: "\<not> ok ?r" by (simp add: ok_def)
  show ?thesis
    using C4_http_failure [OF a b, of 1700000000000 "cached_world ''tok-0'' ''1700000000500''"] b
    by (simp add: cached_world_def toString_eval)
qed



section \<open>The login exchange: the request\<close>

text \<open>
  Claim C6, as the specification states it: the body of the POST is
  \<^verbatim>\<open>{userid, password, otp: otp ?? "NONE", otp_type: otp_type ?? "PUSH"}\<close>, so a stored
  passcode or delivery type is passed through whenever it is present, also when it is
  the empty string.  The code writes \<^verbatim>\<open>credentials.otp || "NONE"\<close> and
  \<^verbatim>\<open>credentials.otp_type || "PUSH"\<close>: for credentials whose two optional fields are
  the empty string it sends the defaults, not the empty strings.
\<close>

theorem C6_blank_otp_counterexample:
  \<open>otp blank_otp_credentials = Some [] \<and> otp_type blank_otp_credentials = Some [] \<and>
   map req_body (fetches (trace (snd (performSSOLogin (sample_platform endpoint_unauthorized)
       1700000000000 ''https://sso.example/login'' blank_otp_credentials empty_world)))) =
     [''{"userid":"alice","password":"secret","otp":"NONE","otp_type":"PUSH"}''] \<and>
   JSON_stringify_requestBody (spec_login_body blank_otp_credentials) =
     ''{"userid":"alice","password":"secret","otp":"","otp_type":""}'' \<and>
   body_otp (login_body blank_otp_credentials) \<noteq> body_otp (spec_login_body blank_otp_credentials) \<and>
   body_otp_type (login_body blank_otp_credentials)
     \<noteq> body_otp_type (spec_login_body blank_otp_credentials)\<close>
  by (simp add: snd_performSSOLogin fetches_login_exchange empty_world_def login_request_def
      login_body_def spec_login_body_def or_default_def nullish_default_def
      blank_otp_credentials_def sample_credentials_def JSON_stringify_requestBody_def
      json_quote_def json_escape_def)

text \<open>
  Claim C6, amended: for every credentials record, \<^verbatim>\<open>performSSOLogin\<close> sends exactly one
  request, a POST with JSON content type, cross-origin mode, no credentials attached
  and redirects followed, whose body is the JSON text of \<^verbatim>\<open>{userid, password, otp, otp_type}\<close>
  where a stored passcode or delivery type is passed through when it is a non-empty
  string, and the defaults \<^verbatim>\<open>NONE\<close> and \<^verbatim>\<open>PUSH\<close> stand in when the field is absent or the
  empty string.
\<close>

theorem C6_login_request:
  "fetches (trace (snd (performSSOLogin P now url c w))) =
     fetches (trace w) @
     [\<lparr>req_url = url,
       req_method = ''POST'',
       req_headers = [(''Content-Type'', ''application/json'')],
       req_body = JSON_stringify_requestBody
         \<lparr>body_userid = userid c,
          body_password = password c,
          body_otp = (case otp c of None \<Rightarrow> ''NONE'' | Some s \<Rightarrow> if s = [] then ''NONE'' else s),
          body_otp_type =
            (case otp_type c of None \<Rightarrow> ''PUSH'' | Some s \<Rightarrow> if s = [] then ''PUSH'' else s)\<rparr>,
       req_mode = ''cors'',
       req_credentials = ''omit'',
       req_redirect = ''follow''\<rparr>]"
  by (simp add: snd_performSSOLogin fetches_login_exchange login_request_def login_body_def
      or_default_def)

theorem C6_login_request_witness:
  \<open>map req_body (fetches (trace (snd (performSSOLogin (sample_platform endpoint_unreachable)
       1700000000000 ''https://sso.example/login''
       (sample_credentials\<lparr>otp := Some ''123456'', otp_type := Some ''TOTP''\<rparr>) empty_world)))) =
     [''{"userid":"alice","password":"secret","otp":"123456","otp_type":"TOTP"}''] \<and>
   map req_method (fetches (trace (snd (performSSOLogin (sample_platform endpoint_unreachable)
       1700000000000 ''https://sso.example/login''
       (sample_credentials\<lparr>otp := Some ''123456'', otp_type := Some ''TOTP''\<rparr>) empty_world)))) =
     [''POST'']\<close>
  using C6_login_request [of "sample_platform endpoint_unreachable" 1700000000000
      "''https://sso.example/login''"
      "sample_credentials\<lparr>otp := Some ''123456'', otp_type := Some ''TOTP''\<rparr>" empty_world]
  by (simp add: empty_world_def sample_credentials_def JSON_stringify_requestBody_def
      json_quote_def json_escape_def)

section \<open>The token cache: round trip\<close>




section \<open>The configuration presence check\<close>



section \<open>The token cache: corrupt expiry and the frame\<close>

text \<open>
  Claim C9, as stated: if the stored expiry field holds text that \<^verbatim>\<open>parseInt\<close> maps to
  \<^verbatim>\<open>NaN\<close>, \<^verbatim>\<open>getAccessToken\<close> returns the stored token string, at every current time.
  It fails for the empty text: \<^verbatim>\<open>parseInt("")\<close> is \<^verbatim>\<open>NaN\<close>, but the guard
  \<^verbatim>\<open>!expiry\<close> returns absent before the comparison is reached.
\<close>

theorem C9_empty_expiry_counterexample:
  "parseInt [] = None \<and>
   store (cached_world ''tok-1'' []) SSO_TOKEN_EXPIRY_KEY = Some [] \<and>
   fst (getAccessToken 1700000000000 (cached_world ''tok-1'' [])) \<noteq> Some ''tok-1''"
  by (simp add: parseInt_def cached_world_def getAccessToken_def storage_get_def truthy_def
      keys_distinct)

text \<open>
  Claim C9, amended: if the store holds a non-empty token string and the stored expiry
  field holds non-empty text that \<^verbatim>\<open>parseInt\<close> maps to \<^verbatim>\<open>NaN\<close>, then at every current
  time \<^verbatim>\<open>getAccessToken\<close> returns the stored token string and clears nothing: the
  comparison of the clock with \<^verbatim>\<open>NaN\<close> is false, so the cached token never expires.
\<close>

theorem C9_corrupt_expiry:
  assumes "store w SSO_TOKEN_KEY = Some t" and "t \<noteq> []"
    and "store w SSO_TOKEN_EXPIRY_KEY = Some x" and "x \<noteq> []"
    and "parseInt x = None"
  shows "getAccessToken now w =
           (Some t, w\<lparr>trace := trace w @
                        [StorageGet SSO_TOKEN_KEY, StorageGet SSO_TOKEN_EXPIRY_KEY]\<rparr>)"
  using assms
  by (simp add: getAccessToken_def storage_get_def truthy_def js_ge_def)

theorem C9_corrupt_expiry_witness:
  "parseInt ''NaN'' = None \<and>
   fst (getAccessToken 0 (cached_world ''tok-1'' ''NaN'')) = Some ''tok-1'' \<and>
   fst (getAccessToken 99999999999999999 (cached_world ''tok-1'' ''NaN'')) = Some ''tok-1'' \<and>
   store (snd (getAccessToken 99999999999999999 (cached_world ''tok-1'' ''NaN''))) =
     [SSO_TOKEN_KEY \<mapsto> ''tok-1'', SSO_TOKEN_EXPIRY_KEY \<mapsto> ''NaN'']"
proof -
  have p: "parseInt ''NaN'' = None" by (simp add: parseInt_eval)
  have a: "store (cached_world ''tok-1'' ''NaN'') SSO_TOKEN_KEY = Some ''tok-1''"
    by (simp add: cached_world_def keys_distinct)
  have b: "store (cached_world ''tok-1'' ''NaN'') SSO_TOKEN_EXPIRY_KEY = Some ''NaN''"
    by (simp add: cached_world_def)
  show ?thesis
    using C9_corrupt_expiry [OF a _ b _ p, of 0]
      C9_corrupt_expiry [OF a _ b _ p, of 99999999999999999] p
    by (simp add: cached_world_def)
qed

text \<open>
  Claim C10: \<^verbatim>\<open>getAccessToken\<close> changes the store only on the expired branch.  Every
  call that returns a token string, and every call where the token field or the expiry
  field is absent or empty, leaves the world as it was but for the two reads in the
  trace: no field is written or removed, so in the missing-field case a surviving field
  stays where it is.  A call that does change the store found both fields non-empty and
  the clock at or past the parsed expiry.
\<close>

theorem C10_store_frame:
  "(fst (getAccessToken now w) \<noteq> None \<longrightarrow>
      snd (getAccessToken now w) =
        w\<lparr>trace := trace w @ [StorageGet SSO_TOKEN_KEY, StorageGet SSO_TOKEN_EXPIRY_KEY]\<rparr>) \<and>
   (\<not> truthy (store w SSO_TOKEN_KEY) \<or> \<not> truthy (store w SSO_TOKEN_EXPIRY_KEY) \<longrightarrow>
      getAccessToken now w =
        (None, w\<lparr>trace := trace w @ [StorageGet SSO_TOKEN_KEY, StorageGet SSO_TOKEN_EXPIRY_KEY]\<rparr>)) \<and>
   (store (snd (getAccessToken now w)) \<noteq> store w \<longrightarrow>
      truthy (store w SSO_TOKEN_KEY) \<and> truthy (store w SSO_TOKEN_EXPIRY_KEY) \<and>
      js_ge now (parseInt (the (store w SSO_TOKEN_EXPIRY_KEY))))"
proof (intro conjI impI)
  assume "fst (getAccessToken now w) \<noteq> None"
  then show "snd (getAccessToken now w) =
      w\<lparr>trace := trace w @ [StorageGet SSO_TOKEN_KEY, StorageGet SSO_TOKEN_EXPIRY_KEY]\<rparr>"
    by (auto simp: getAccessToken_def storage_get_def Let_def split: if_splits)
next
  assume "\<not> truthy (store w SSO_TOKEN_KEY) \<or> \<not> truthy (store w SSO_TOKEN_EXPIRY_KEY)"
  then show "getAccessToken now w =
      (None, w\<lparr>trace := trace w @ [StorageGet SSO_TOKEN_KEY, StorageGet SSO_TOKEN_EXPIRY_KEY]\<rparr>)"
    by (simp add: getAccessToken_missing cache_reads_def)
next
  assume ch: "store (snd (getAccessToken now w)) \<noteq> store w"
  then show "truthy (store w SSO_TOKEN_KEY)"
    by (auto simp: getAccessToken_def storage_get_def Let_def split: if_splits)
  from ch show "truthy (store w SSO_TOKEN_EXPIRY_KEY)"
    by (auto simp: getAccessToken_def storage_get_def Let_def split: if_splits)
  from ch show "js_ge now (parseInt (the (store w SSO_TOKEN_EXPIRY_KEY)))"
    by (auto simp: getAccessToken_def storage_get_def Let_def split: if_splits)
qed

theorem C10_store_frame_witness:
  "\<not> truthy (store expiry_only_world SSO_TOKEN_KEY) \<and>
   getAccessToken 1800000000000 expiry_only_world =
     (None, \<lparr>store = [SSO_TOKEN_EXPIRY_KEY \<mapsto> ''1700000000000''],
             trace = [StorageGet SSO_TOKEN_KEY, StorageGet SSO_TOKEN_EXPIRY_KEY]\<rparr>) \<and>
   fst (getAccessToken 1600000000000 (cached_world ''tok-1'' ''1700000000000'')) \<noteq> None \<and>
   store (snd (getAccessToken 1600000000000 (cached_world ''tok-1'' ''1700000000000''))) =
     [SSO_TOKEN_KEY \<mapsto> ''tok-1'', SSO_TOKEN_EXPIRY_KEY \<mapsto> ''1700000000000''] \<and>
   store (snd (getAccessToken 1800000000000 (cached_world ''tok-1'' ''1700000000000'')))
     \<noteq> store (cached_world ''tok-1'' ''1700000000000'') \<and>
   js_ge 1800000000000 (parseInt ''1700000000000'')"
proof -
  have p: "parseInt ''1700000000000'' = Some 1700000000000" by (simp add: parseInt_eval)
  have live: "fst (getAccessToken 1600000000000 (cached_world ''tok-1'' ''1700000000000'')) \<noteq> None"
    by (simp add: getAccessToken_def storage_get_def cached_world_def truthy_def keys_distinct
        js_ge_def p)
  have gone: "store (snd (getAccessToken 1800000000000 (cached_world ''tok-1'' ''1700000000000'')))
      \<noteq> store (cached_world ''tok-1'' ''1700000000000'')"
  proof
    assume "store (snd (getAccessToken 1800000000000 (cached_world ''tok-1'' ''1700000000000'')))
      = store (cached_world ''tok-1'' ''1700000000000'')"
    then have "store (snd (getAccessToken 1800000000000 (cached_world ''tok-1'' ''1700000000000'')))
        SSO_TOKEN_KEY = store (cached_world ''tok-1'' ''1700000000000'') SSO_TOKEN_KEY"
      by simp
    then show False
      by (simp add: getAccessToken_def storage_get_def cached_world_def truthy_def keys_distinct
          js_ge_def p store_clearTokens)
  qed
  show ?thesis
    using C10_store_frame [of 1800000000000 expiry_only_world]
      C10_store_frame [of 1600000000000 "cached_world ''tok-1'' ''1700000000000''"]
      C10_store_frame [of 1800000000000 "cached_world ''tok-1'' ''1700000000000''"]
      live gone
    by (simp add: expiry_only_world_def cached_world_def keys_distinct truthy_def)
qed

end
